theory Spec2Isabelle
  imports Main
begin

section \<open>Strings of the host language\<close>

text \<open>
  A JavaScript string is a sequence of UTF-16 code units; \<open>length\<close>, indexing and
  \<open>substring\<close> all count code units. Every Devanagari sign used by the tables lies in
  the Basic Multilingual Plane, so it is one code unit. A string is modelled as the list
  of its code units, each a natural number. The Romanized keys are ASCII and are written
  with \<open>ascii\<close>, which reads an ASCII literal as its code units.
\<close>

type_synonym jsstring = "nat list"

definition ascii :: "string \<Rightarrow> jsstring" where
  "ascii s = map of_char s"

text \<open>
  \<open>String.prototype.substring(a, b)\<close> for integer arguments that are not negative: both
  indices are clamped to the length and swapped when the first is the larger.
\<close>

definition substring :: "jsstring \<Rightarrow> nat \<Rightarrow> nat \<Rightarrow> jsstring" where
  "substring s a b =
     (let a' = min a (length s); b' = min b (length s)
      in take (max a' b' - min a' b') (drop (min a' b') s))"

text \<open>
  White space as \<open>String.prototype.trim\<close> and the regular expression class \<open>\s\<close> see
  it: the WhiteSpace and LineTerminator code points of ECMAScript.
\<close>

definition isWhiteSpace :: "nat \<Rightarrow> bool" where
  "isWhiteSpace c \<longleftrightarrow>
     c \<in> {0x09, 0x0A, 0x0B, 0x0C, 0x0D, 0x20, 0xA0, 0x1680, 0x2028, 0x2029,
          0x202F, 0x205F, 0x3000, 0xFEFF} \<or> (0x2000 \<le> c \<and> c \<le> 0x200A)"

definition trim :: "jsstring \<Rightarrow> jsstring" where
  "trim s = rev (dropWhile isWhiteSpace (rev (dropWhile isWhiteSpace s)))"

text \<open>
  Two things the program takes from its host differ from one JavaScript engine to the
  next, and are parameters of the model.
  \<^item> \<open>caseConversion\<close>: what \<open>String.prototype.toLowerCase\<close> returns for a string that
    has a code unit outside ASCII. It follows the Unicode case tables of the engine, which
    grow with every Unicode version, maps some code units to two (U+0130), some to ASCII
    (U+212A to \<open>k\<close>), and depends on the neighbours (final sigma, surrogate pairs).
  \<^item> \<open>functionSource\<close>: the source text \<open>Function.prototype.toString\<close> gives for the
    built-in function of a given name; engines differ in its white space.
\<close>

record Host =
  caseConversion :: "jsstring \<Rightarrow> jsstring"
  functionSource :: "jsstring \<Rightarrow> jsstring"

text \<open>
  \<open>String.prototype.toLowerCase\<close>. On a string of ASCII code units it maps \<open>A\<close> to \<open>Z\<close>
  onto \<open>a\<close> to \<open>z\<close> and nothing else, in every engine. On any other string it is the
  host's case conversion.
\<close>

definition lowerAscii :: "nat \<Rightarrow> nat" where
  "lowerAscii c = (if 0x41 \<le> c \<and> c \<le> 0x5A then c + 0x20 else c)"

definition toLowerCase :: "Host \<Rightarrow> jsstring \<Rightarrow> jsstring" where
  "toLowerCase host s =
     (if list_all (\<lambda>c. c < 0x80) s then map lowerAscii s else caseConversion host s)"

text \<open>
  A host for the closed examples. Its \<open>functionSource\<close> is what V8 prints. Its
  \<open>caseConversion\<close> is the identity; every example word is ASCII, so no example
  consults it.
\<close>

definition sampleHost :: Host where
  "sampleHost =
     \<lparr>caseConversion = (\<lambda>s. s),
      functionSource = (\<lambda>name. ascii ''function '' @ name @ ascii ''() { [native code] }'')\<rparr>"

section \<open>Symbol tables (nepali-mapping.ts)\<close>

text \<open>
  Each table of \<open>NepaliMapping\<close> is an object literal. Its entries are kept in source
  order; no table repeats a key, so the first-match lookup of \<open>map_of\<close> agrees with the
  object. Values are the Devanagari code units of the source literal.
\<close>

definition HALANT :: jsstring where
  "HALANT = [0x94D]"

definition vowels_entries :: "(jsstring \<times> jsstring) list" where
  "vowels_entries = [
    (ascii ''a'', [0x905]), (ascii ''aa'', [0x906]), (ascii ''i'', [0x907]), (ascii ''ee'', [0x908]),
    (ascii ''ii'', [0x908]), (ascii ''u'', [0x909]), (ascii ''uu'', [0x90A]), (ascii ''e'', [0x90F]),
    (ascii ''ai'', [0x910]), (ascii ''o'', [0x913]), (ascii ''au'', [0x914]), (ascii ''A'', [0x906]),
    (ascii ''I'', [0x908]), (ascii ''E'', [0x90F]), (ascii ''O'', [0x913]), (ascii ''U'', [0x90A])]"

definition baseConsonants_entries :: "(jsstring \<times> jsstring) list" where
  "baseConsonants_entries = [
    (ascii ''k'', [0x915]), (ascii ''kh'', [0x916]), (ascii ''g'', [0x917]), (ascii ''gh'', [0x918]),
    (ascii ''ng'', [0x919]), (ascii ''ch'', [0x91A]), (ascii ''chh'', [0x91B]), (ascii ''j'', [0x91C]),
    (ascii ''jh'', [0x91D]), (ascii ''yn'', [0x91E]), (ascii ''t'', [0x924]), (ascii ''th'', [0x925]),
    (ascii ''d'', [0x926]), (ascii ''dh'', [0x927]), (ascii ''n'', [0x928]), (ascii ''T'', [0x91F]),
    (ascii ''Th'', [0x920]), (ascii ''D'', [0x921]), (ascii ''Dh'', [0x922]), (ascii ''N'', [0x923]),
    (ascii ''p'', [0x92A]), (ascii ''ph'', [0x92B]), (ascii ''b'', [0x92C]), (ascii ''bh'', [0x92D]),
    (ascii ''m'', [0x92E]), (ascii ''y'', [0x92F]), (ascii ''r'', [0x930]), (ascii ''l'', [0x932]),
    (ascii ''w'', [0x935]), (ascii ''v'', [0x935]), (ascii ''sh'', [0x936]), (ascii ''Sh'', [0x937]),
    (ascii ''s'', [0x938]), (ascii ''h'', [0x939])]"

definition halfConsonants_entries :: "(jsstring \<times> jsstring) list" where
  "halfConsonants_entries = [
    (ascii ''k'', [0x915, 0x94D]), (ascii ''kh'', [0x916, 0x94D]), (ascii ''g'', [0x917, 0x94D]),
    (ascii ''gh'', [0x918, 0x94D]), (ascii ''ng'', [0x919, 0x94D]), (ascii ''ch'', [0x91A, 0x94D]),
    (ascii ''chh'', [0x91B, 0x94D]), (ascii ''j'', [0x91C, 0x94D]), (ascii ''jh'', [0x91D, 0x94D]),
    (ascii ''yn'', [0x91E, 0x94D]), (ascii ''t'', [0x924, 0x94D]), (ascii ''th'', [0x925, 0x94D]),
    (ascii ''d'', [0x926, 0x94D]), (ascii ''dh'', [0x927, 0x94D]), (ascii ''n'', [0x928, 0x94D]),
    (ascii ''T'', [0x91F, 0x94D]), (ascii ''Th'', [0x920, 0x94D]), (ascii ''D'', [0x921, 0x94D]),
    (ascii ''Dh'', [0x922, 0x94D]), (ascii ''N'', [0x923, 0x94D]), (ascii ''p'', [0x92A, 0x94D]),
    (ascii ''ph'', [0x92B, 0x94D]), (ascii ''b'', [0x92C, 0x94D]), (ascii ''bh'', [0x92D, 0x94D]),
    (ascii ''m'', [0x92E, 0x94D]), (ascii ''y'', [0x92F, 0x94D]), (ascii ''r'', [0x930, 0x94D]),
    (ascii ''l'', [0x932, 0x94D]), (ascii ''w'', [0x935, 0x94D]), (ascii ''v'', [0x935, 0x94D]),
    (ascii ''sh'', [0x936, 0x94D]), (ascii ''Sh'', [0x937, 0x94D]), (ascii ''s'', [0x938, 0x94D]),
    (ascii ''h'', [0x939, 0x94D])]"

definition matras_entries :: "(jsstring \<times> jsstring) list" where
  "matras_entries = [
    (ascii ''aa'', [0x93E]), (ascii ''i'', [0x93F]), (ascii ''ee'', [0x940]), (ascii ''ii'', [0x940]),
    (ascii ''u'', [0x941]), (ascii ''uu'', [0x942]), (ascii ''e'', [0x947]), (ascii ''ai'', [0x948]),
    (ascii ''o'', [0x94B]), (ascii ''au'', [0x94C])]"

definition consonantClusters_entries :: "(jsstring \<times> jsstring) list" where
  "consonantClusters_entries = [
    (ascii ''ksh'', [0x915, 0x94D, 0x937]), (ascii ''ksha'', [0x915, 0x94D, 0x937]), (ascii ''kshi'', [0x915, 0x94D, 0x937, 0x93F]),
    (ascii ''kshu'', [0x915, 0x94D, 0x937, 0x941]), (ascii ''kshe'', [0x915, 0x94D, 0x937, 0x947]), (ascii ''ksho'', [0x915, 0x94D, 0x937, 0x94B]),
    (ascii ''tr'', [0x924, 0x94D, 0x930]), (ascii ''tra'', [0x924, 0x94D, 0x930]), (ascii ''tri'', [0x924, 0x94D, 0x930, 0x93F]),
    (ascii ''tru'', [0x924, 0x94D, 0x930, 0x941]), (ascii ''tre'', [0x924, 0x94D, 0x930, 0x947]), (ascii ''tro'', [0x924, 0x94D, 0x930, 0x94B]),
    (ascii ''jny'', [0x91C, 0x94D, 0x91E]), (ascii ''jnya'', [0x91C, 0x94D, 0x91E]), (ascii ''jnyi'', [0x91C, 0x94D, 0x91E, 0x93F]),
    (ascii ''jnyu'', [0x91C, 0x94D, 0x91E, 0x941]), (ascii ''jnye'', [0x91C, 0x94D, 0x91E, 0x947]), (ascii ''jnyo'', [0x91C, 0x94D, 0x91E, 0x94B]),
    (ascii ''kt'', [0x915, 0x94D, 0x924]), (ascii ''kta'', [0x915, 0x94D, 0x924]), (ascii ''kti'', [0x915, 0x94D, 0x924, 0x93F]),
    (ascii ''ktu'', [0x915, 0x94D, 0x924, 0x941]), (ascii ''kte'', [0x915, 0x94D, 0x924, 0x947]), (ascii ''kto'', [0x915, 0x94D, 0x924, 0x94B]),
    (ascii ''st'', [0x938, 0x94D, 0x924]), (ascii ''sta'', [0x938, 0x94D, 0x924]), (ascii ''sti'', [0x938, 0x94D, 0x924, 0x93F]),
    (ascii ''stu'', [0x938, 0x94D, 0x924, 0x941]), (ascii ''ste'', [0x938, 0x94D, 0x924, 0x947]), (ascii ''sto'', [0x938, 0x94D, 0x924, 0x94B]),
    (ascii ''str'', [0x938, 0x94D, 0x924, 0x94D, 0x930]), (ascii ''stra'', [0x938, 0x94D, 0x924, 0x94D, 0x930]), (ascii ''stri'', [0x938, 0x94D, 0x924, 0x94D, 0x930, 0x93F]),
    (ascii ''stru'', [0x938, 0x94D, 0x924, 0x94D, 0x930, 0x941]), (ascii ''stre'', [0x938, 0x94D, 0x924, 0x94D, 0x930, 0x947]), (ascii ''stro'', [0x938, 0x94D, 0x924, 0x94D, 0x930, 0x94B]),
    (ascii ''nt'', [0x928, 0x94D, 0x924]), (ascii ''nta'', [0x928, 0x94D, 0x924]), (ascii ''nti'', [0x928, 0x94D, 0x924, 0x93F]),
    (ascii ''ntu'', [0x928, 0x94D, 0x924, 0x941]), (ascii ''nte'', [0x928, 0x94D, 0x924, 0x947]), (ascii ''nto'', [0x928, 0x94D, 0x924, 0x94B]),
    (ascii ''nd'', [0x928, 0x94D, 0x926]), (ascii ''nda'', [0x928, 0x94D, 0x926]), (ascii ''ndi'', [0x928, 0x94D, 0x926, 0x93F]),
    (ascii ''ndu'', [0x928, 0x94D, 0x926, 0x941]), (ascii ''nde'', [0x928, 0x94D, 0x926, 0x947]), (ascii ''ndo'', [0x928, 0x94D, 0x926, 0x94B]),
    (ascii ''mp'', [0x92E, 0x94D, 0x92A]), (ascii ''mpa'', [0x92E, 0x94D, 0x92A]), (ascii ''mpi'', [0x92E, 0x94D, 0x92A, 0x93F]),
    (ascii ''mpu'', [0x92E, 0x94D, 0x92A, 0x941]), (ascii ''mpe'', [0x92E, 0x94D, 0x92A, 0x947]), (ascii ''mpo'', [0x92E, 0x94D, 0x92A, 0x94B]),
    (ascii ''mb'', [0x92E, 0x94D, 0x92C]), (ascii ''mba'', [0x92E, 0x94D, 0x92C]), (ascii ''mbi'', [0x92E, 0x94D, 0x92C, 0x93F]),
    (ascii ''mbu'', [0x92E, 0x94D, 0x92C, 0x941]), (ascii ''mbe'', [0x92E, 0x94D, 0x92C, 0x947]), (ascii ''mbo'', [0x92E, 0x94D, 0x92C, 0x94B]),
    (ascii ''ng'', [0x919, 0x94D, 0x917]), (ascii ''nga'', [0x919, 0x94D, 0x917]), (ascii ''ngi'', [0x919, 0x94D, 0x917, 0x93F]),
    (ascii ''ngu'', [0x919, 0x94D, 0x917, 0x941]), (ascii ''nge'', [0x919, 0x94D, 0x917, 0x947]), (ascii ''ngo'', [0x919, 0x94D, 0x917, 0x94B]),
    (ascii ''chh'', [0x91B]), (ascii ''chha'', [0x91B]), (ascii ''chhi'', [0x91B, 0x93F]),
    (ascii ''chhu'', [0x91B, 0x941]), (ascii ''chhe'', [0x91B, 0x947]), (ascii ''chho'', [0x91B, 0x94B]),
    (ascii ''shch'', [0x936, 0x94D, 0x91A]), (ascii ''shcha'', [0x936, 0x94D, 0x91A]), (ascii ''shchi'', [0x936, 0x94D, 0x91A, 0x93F]),
    (ascii ''shchu'', [0x936, 0x94D, 0x91A, 0x941]), (ascii ''shche'', [0x936, 0x94D, 0x91A, 0x947]), (ascii ''shcho'', [0x936, 0x94D, 0x91A, 0x94B]),
    (ascii ''shth'', [0x938, 0x94D, 0x925]), (ascii ''shtha'', [0x938, 0x94D, 0x925]), (ascii ''shthi'', [0x938, 0x94D, 0x925, 0x93F]),
    (ascii ''shthu'', [0x938, 0x94D, 0x925, 0x941]), (ascii ''shthe'', [0x938, 0x94D, 0x925, 0x947]), (ascii ''shtho'', [0x938, 0x94D, 0x925, 0x94B]),
    (ascii ''shm'', [0x936, 0x94D, 0x92E]), (ascii ''shma'', [0x936, 0x94D, 0x92E]), (ascii ''shmi'', [0x936, 0x94D, 0x92E, 0x93F]),
    (ascii ''shmu'', [0x936, 0x94D, 0x92E, 0x941]), (ascii ''shme'', [0x936, 0x94D, 0x92E, 0x947]), (ascii ''shmo'', [0x936, 0x94D, 0x92E, 0x94B]),
    (ascii ''shn'', [0x936, 0x94D, 0x928]), (ascii ''shna'', [0x936, 0x94D, 0x928]), (ascii ''shni'', [0x936, 0x94D, 0x928, 0x93F]),
    (ascii ''shnu'', [0x936, 0x94D, 0x928, 0x941]), (ascii ''shne'', [0x936, 0x94D, 0x928, 0x947]), (ascii ''shno'', [0x936, 0x94D, 0x928, 0x94B]),
    (ascii ''shl'', [0x936, 0x94D, 0x932]), (ascii ''shla'', [0x936, 0x94D, 0x932]), (ascii ''shli'', [0x936, 0x94D, 0x932, 0x93F]),
    (ascii ''shlu'', [0x936, 0x94D, 0x932, 0x941]), (ascii ''shle'', [0x936, 0x94D, 0x932, 0x947]), (ascii ''shlo'', [0x936, 0x94D, 0x932, 0x94B]),
    (ascii ''shv'', [0x936, 0x94D, 0x935]), (ascii ''shva'', [0x936, 0x94D, 0x935]), (ascii ''shvi'', [0x936, 0x94D, 0x935, 0x93F]),
    (ascii ''shvu'', [0x936, 0x94D, 0x935, 0x941]), (ascii ''shve'', [0x936, 0x94D, 0x935, 0x947]), (ascii ''shvo'', [0x936, 0x94D, 0x935, 0x94B]),
    (ascii ''rth'', [0x930, 0x94D, 0x925]), (ascii ''rtha'', [0x930, 0x94D, 0x925]), (ascii ''rthi'', [0x930, 0x94D, 0x925, 0x93F]),
    (ascii ''rthu'', [0x930, 0x94D, 0x925, 0x941]), (ascii ''rthe'', [0x930, 0x94D, 0x925, 0x947]), (ascii ''rtho'', [0x930, 0x94D, 0x925, 0x94B]),
    (ascii ''rdh'', [0x930, 0x94D, 0x927]), (ascii ''rdha'', [0x930, 0x94D, 0x927]), (ascii ''rdhi'', [0x930, 0x94D, 0x927, 0x93F]),
    (ascii ''rdhu'', [0x930, 0x94D, 0x927, 0x941]), (ascii ''rdhe'', [0x930, 0x94D, 0x927, 0x947]), (ascii ''rdho'', [0x930, 0x94D, 0x927, 0x94B]),
    (ascii ''rsh'', [0x930, 0x94D, 0x936]), (ascii ''rsha'', [0x930, 0x94D, 0x936]), (ascii ''rshi'', [0x930, 0x94D, 0x936, 0x93F]),
    (ascii ''rshu'', [0x930, 0x94D, 0x936, 0x941]), (ascii ''rshe'', [0x930, 0x94D, 0x936, 0x947]), (ascii ''rsho'', [0x930, 0x94D, 0x936, 0x94B]),
    (ascii ''rch'', [0x930, 0x94D, 0x91A]), (ascii ''rcha'', [0x930, 0x94D, 0x91A]), (ascii ''rchi'', [0x930, 0x94D, 0x91A, 0x93F]),
    (ascii ''rchu'', [0x930, 0x94D, 0x91A, 0x941]), (ascii ''rche'', [0x930, 0x94D, 0x91A, 0x947]), (ascii ''rcho'', [0x930, 0x94D, 0x91A, 0x94B]),
    (ascii ''rgh'', [0x930, 0x94D, 0x918]), (ascii ''rgha'', [0x930, 0x94D, 0x918]), (ascii ''rghi'', [0x930, 0x94D, 0x918, 0x93F]),
    (ascii ''rghu'', [0x930, 0x94D, 0x918, 0x941]), (ascii ''rghe'', [0x930, 0x94D, 0x918, 0x947]), (ascii ''rgho'', [0x930, 0x94D, 0x918, 0x94B]),
    (ascii ''rkh'', [0x930, 0x94D, 0x916]), (ascii ''rkha'', [0x930, 0x94D, 0x916]), (ascii ''rkhi'', [0x930, 0x94D, 0x916, 0x93F]),
    (ascii ''rkhu'', [0x930, 0x94D, 0x916, 0x941]), (ascii ''rkhe'', [0x930, 0x94D, 0x916, 0x947]), (ascii ''rkho'', [0x930, 0x94D, 0x916, 0x94B]),
    (ascii ''rph'', [0x930, 0x94D, 0x92B]), (ascii ''rpha'', [0x930, 0x94D, 0x92B]), (ascii ''rphi'', [0x930, 0x94D, 0x92B, 0x93F]),
    (ascii ''rphu'', [0x930, 0x94D, 0x92B, 0x941]), (ascii ''rphe'', [0x930, 0x94D, 0x92B, 0x947]), (ascii ''rpho'', [0x930, 0x94D, 0x92B, 0x94B]),
    (ascii ''rbh'', [0x930, 0x94D, 0x92D]), (ascii ''rbha'', [0x930, 0x94D, 0x92D]), (ascii ''rbhi'', [0x930, 0x94D, 0x92D, 0x93F]),
    (ascii ''rbhu'', [0x930, 0x94D, 0x92D, 0x941]), (ascii ''rbhe'', [0x930, 0x94D, 0x92D, 0x947]), (ascii ''rbho'', [0x930, 0x94D, 0x92D, 0x94B]),
    (ascii ''rd'', [0x930, 0x94D, 0x926]), (ascii ''rda'', [0x930, 0x94D, 0x926]), (ascii ''rdi'', [0x930, 0x94D, 0x926, 0x93F]),
    (ascii ''rdu'', [0x930, 0x94D, 0x926, 0x941]), (ascii ''rde'', [0x930, 0x94D, 0x926, 0x947]), (ascii ''rdo'', [0x930, 0x94D, 0x926, 0x94B]),
    (ascii ''rt'', [0x930, 0x94D, 0x924]), (ascii ''rta'', [0x930, 0x94D, 0x924]), (ascii ''rti'', [0x930, 0x94D, 0x924, 0x93F]),
    (ascii ''rtu'', [0x930, 0x94D, 0x924, 0x941]), (ascii ''rte'', [0x930, 0x94D, 0x924, 0x947]), (ascii ''rto'', [0x930, 0x94D, 0x924, 0x94B]),
    (ascii ''rn'', [0x930, 0x94D, 0x928]), (ascii ''rna'', [0x930, 0x94D, 0x928]), (ascii ''rni'', [0x930, 0x94D, 0x928, 0x93F]),
    (ascii ''rnu'', [0x930, 0x94D, 0x928, 0x941]), (ascii ''rne'', [0x930, 0x94D, 0x928, 0x947]), (ascii ''rno'', [0x930, 0x94D, 0x928, 0x94B]),
    (ascii ''rm'', [0x930, 0x94D, 0x92E]), (ascii ''rma'', [0x930, 0x94D, 0x92E]), (ascii ''rmi'', [0x930, 0x94D, 0x92E, 0x93F]),
    (ascii ''rmu'', [0x930, 0x94D, 0x92E, 0x941]), (ascii ''rme'', [0x930, 0x94D, 0x92E, 0x947]), (ascii ''rmo'', [0x930, 0x94D, 0x92E, 0x94B]),
    (ascii ''rl'', [0x930, 0x94D, 0x932]), (ascii ''rla'', [0x930, 0x94D, 0x932]), (ascii ''rli'', [0x930, 0x94D, 0x932, 0x93F]),
    (ascii ''rlu'', [0x930, 0x94D, 0x932, 0x941]), (ascii ''rle'', [0x930, 0x94D, 0x932, 0x947]), (ascii ''rlo'', [0x930, 0x94D, 0x932, 0x94B]),
    (ascii ''rv'', [0x930, 0x94D, 0x935]), (ascii ''rva'', [0x930, 0x94D, 0x935]), (ascii ''rvi'', [0x930, 0x94D, 0x935, 0x93F]),
    (ascii ''rvu'', [0x930, 0x94D, 0x935, 0x941]), (ascii ''rve'', [0x930, 0x94D, 0x935, 0x947]), (ascii ''rvo'', [0x930, 0x94D, 0x935, 0x94B]),
    (ascii ''ry'', [0x930, 0x94D, 0x92F]), (ascii ''rya'', [0x930, 0x94D, 0x92F]), (ascii ''ryi'', [0x930, 0x94D, 0x92F, 0x93F]),
    (ascii ''ryu'', [0x930, 0x94D, 0x92F, 0x941]), (ascii ''rye'', [0x930, 0x94D, 0x92F, 0x947]), (ascii ''ryo'', [0x930, 0x94D, 0x92F, 0x94B]),
    (ascii ''ly'', [0x932, 0x94D, 0x92F]), (ascii ''lya'', [0x932, 0x94D, 0x92F]), (ascii ''lyi'', [0x932, 0x94D, 0x92F, 0x93F]),
    (ascii ''lyu'', [0x932, 0x94D, 0x92F, 0x941]), (ascii ''lye'', [0x932, 0x94D, 0x92F, 0x947]), (ascii ''lyo'', [0x932, 0x94D, 0x92F, 0x94B]),
    (ascii ''ny'', [0x928, 0x94D, 0x92F]), (ascii ''nya'', [0x928, 0x94D, 0x92F]), (ascii ''nyi'', [0x928, 0x94D, 0x92F, 0x93F]),
    (ascii ''nyu'', [0x928, 0x94D, 0x92F, 0x941]), (ascii ''nye'', [0x928, 0x94D, 0x92F, 0x947]), (ascii ''nyo'', [0x928, 0x94D, 0x92F, 0x94B]),
    (ascii ''my'', [0x92E, 0x94D, 0x92F]), (ascii ''mya'', [0x92E, 0x94D, 0x92F]), (ascii ''myi'', [0x92E, 0x94D, 0x92F, 0x93F]),
    (ascii ''myu'', [0x92E, 0x94D, 0x92F, 0x941]), (ascii ''mye'', [0x92E, 0x94D, 0x92F, 0x947]), (ascii ''myo'', [0x92E, 0x94D, 0x92F, 0x94B]),
    (ascii ''ty'', [0x924, 0x94D, 0x92F]), (ascii ''tya'', [0x924, 0x94D, 0x92F]), (ascii ''tyi'', [0x924, 0x94D, 0x92F, 0x93F]),
    (ascii ''tyu'', [0x924, 0x94D, 0x92F, 0x941]), (ascii ''tye'', [0x924, 0x94D, 0x92F, 0x947]), (ascii ''tyo'', [0x924, 0x94D, 0x92F, 0x94B]),
    (ascii ''dy'', [0x926, 0x94D, 0x92F]), (ascii ''dya'', [0x926, 0x94D, 0x92F]), (ascii ''dyi'', [0x926, 0x94D, 0x92F, 0x93F]),
    (ascii ''dyu'', [0x926, 0x94D, 0x92F, 0x941]), (ascii ''dye'', [0x926, 0x94D, 0x92F, 0x947]), (ascii ''dyo'', [0x926, 0x94D, 0x92F, 0x94B]),
    (ascii ''py'', [0x92A, 0x94D, 0x92F]), (ascii ''pya'', [0x92A, 0x94D, 0x92F]), (ascii ''pyi'', [0x92A, 0x94D, 0x92F, 0x93F]),
    (ascii ''pyu'', [0x92A, 0x94D, 0x92F, 0x941]), (ascii ''pye'', [0x92A, 0x94D, 0x92F, 0x947]), (ascii ''pyo'', [0x92A, 0x94D, 0x92F, 0x94B]),
    (ascii ''by'', [0x92C, 0x94D, 0x92F]), (ascii ''bya'', [0x92C, 0x94D, 0x92F]), (ascii ''byi'', [0x92C, 0x94D, 0x92F, 0x93F]),
    (ascii ''byu'', [0x92C, 0x94D, 0x92F, 0x941]), (ascii ''bye'', [0x92C, 0x94D, 0x92F, 0x947]), (ascii ''byo'', [0x92C, 0x94D, 0x92F, 0x94B]),
    (ascii ''ky'', [0x915, 0x94D, 0x92F]), (ascii ''kya'', [0x915, 0x94D, 0x92F]), (ascii ''kyi'', [0x915, 0x94D, 0x92F, 0x93F]),
    (ascii ''kyu'', [0x915, 0x94D, 0x92F, 0x941]), (ascii ''kye'', [0x915, 0x94D, 0x92F, 0x947]), (ascii ''kyo'', [0x915, 0x94D, 0x92F, 0x94B]),
    (ascii ''gy'', [0x917, 0x94D, 0x92F]), (ascii ''gya'', [0x917, 0x94D, 0x92F]), (ascii ''gyi'', [0x917, 0x94D, 0x92F, 0x93F]),
    (ascii ''gyu'', [0x917, 0x94D, 0x92F, 0x941]), (ascii ''gye'', [0x917, 0x94D, 0x92F, 0x947]), (ascii ''gyo'', [0x917, 0x94D, 0x92F, 0x94B]),
    (ascii ''hy'', [0x939, 0x94D, 0x92F]), (ascii ''hya'', [0x939, 0x94D, 0x92F]), (ascii ''hyi'', [0x939, 0x94D, 0x92F, 0x93F]),
    (ascii ''hyu'', [0x939, 0x94D, 0x92F, 0x941]), (ascii ''hye'', [0x939, 0x94D, 0x92F, 0x947]), (ascii ''hyo'', [0x939, 0x94D, 0x92F, 0x94B]),
    (ascii ''sy'', [0x938, 0x94D, 0x92F]), (ascii ''sya'', [0x938, 0x94D, 0x92F]), (ascii ''syi'', [0x938, 0x94D, 0x92F, 0x93F]),
    (ascii ''syu'', [0x938, 0x94D, 0x92F, 0x941]), (ascii ''sye'', [0x938, 0x94D, 0x92F, 0x947]), (ascii ''syo'', [0x938, 0x94D, 0x92F, 0x94B]),
    (ascii ''shy'', [0x936, 0x94D, 0x92F]), (ascii ''shya'', [0x936, 0x94D, 0x92F]), (ascii ''shyi'', [0x936, 0x94D, 0x92F, 0x93F]),
    (ascii ''shyu'', [0x936, 0x94D, 0x92F, 0x941]), (ascii ''shye'', [0x936, 0x94D, 0x92F, 0x947]), (ascii ''shyo'', [0x936, 0x94D, 0x92F, 0x94B])]"

definition commonWords_entries :: "(jsstring \<times> jsstring) list" where
  "commonWords_entries = [
    (ascii ''mero'', [0x92E, 0x947, 0x930, 0x94B]), (ascii ''naam'', [0x928, 0x93E, 0x92E]),
    (ascii ''ram'', [0x930, 0x93E, 0x92E]), (ascii ''ho'', [0x939, 0x94B]),
    (ascii ''cha'', [0x91B]), (ascii ''huncha'', [0x939, 0x941, 0x928, 0x94D, 0x91B]),
    (ascii ''hunchha'', [0x939, 0x941, 0x928, 0x94D, 0x91B]), (ascii ''ma'', [0x92E]),
    (ascii ''timro'', [0x924, 0x93F, 0x92E, 0x94D, 0x930, 0x94B]), (ascii ''hamro'', [0x939, 0x93E, 0x92E, 0x94D, 0x930, 0x94B]),
    (ascii ''tapainko'', [0x924, 0x92A, 0x93E, 0x908, 0x902, 0x915, 0x94B]), (ascii ''kasto'', [0x915, 0x938, 0x94D, 0x924, 0x94B]),
    (ascii ''kati'', [0x915, 0x924, 0x93F]), (ascii ''kaha'', [0x915, 0x939, 0x93E, 0x901]),
    (ascii ''kina'', [0x915, 0x93F, 0x928]), (ascii ''kinaa'', [0x915, 0x93F, 0x928, 0x93E]),
    (ascii ''kasari'', [0x915, 0x938, 0x930, 0x940]), (ascii ''ke'', [0x915, 0x947]),
    (ascii ''ko'', [0x915, 0x94B]), (ascii ''ka'', [0x915, 0x93E]),
    (ascii ''ki'', [0x915, 0x940]), (ascii ''ra'', [0x930]),
    (ascii ''ani'', [0x905, 0x928, 0x940]), (ascii ''tara'', [0x924, 0x930]),
    (ascii ''tyo'', [0x924, 0x94D, 0x92F, 0x94B]), (ascii ''yo'', [0x92F, 0x94B]),
    (ascii ''uniharu'', [0x909, 0x928, 0x93F, 0x939, 0x930, 0x942]), (ascii ''tiniharu'', [0x924, 0x93F, 0x928, 0x93F, 0x939, 0x930, 0x942]),
    (ascii ''yini'', [0x92F, 0x93F, 0x928, 0x940]), (ascii ''hami'', [0x939, 0x93E, 0x92E, 0x940]),
    (ascii ''hajur'', [0x939, 0x91C, 0x941, 0x930]), (ascii ''namaste'', [0x928, 0x92E, 0x938, 0x94D, 0x924, 0x947]),
    (ascii ''dhanyabad'', [0x927, 0x928, 0x94D, 0x92F, 0x935, 0x93E, 0x926]), (ascii ''sukriya'', [0x938, 0x941, 0x915, 0x94D, 0x930, 0x93F, 0x92F, 0x93E]),
    (ascii ''bholi'', [0x92D, 0x94B, 0x932, 0x93F]), (ascii ''aaja'', [0x906, 0x91C]),
    (ascii ''hijo'', [0x939, 0x93F, 0x91C, 0x94B]), (ascii ''parsi'', [0x92A, 0x930, 0x94D, 0x938, 0x93F]),
    (ascii ''bhaneko'', [0x92D, 0x928, 0x947, 0x915, 0x94B]), (ascii ''bhancha'', [0x92D, 0x928, 0x94D, 0x91B]),
    (ascii ''garcha'', [0x917, 0x930, 0x94D, 0x91B]), (ascii ''garchha'', [0x917, 0x930, 0x94D, 0x91B]),
    (ascii ''hudaina'', [0x939, 0x941, 0x901, 0x926, 0x948, 0x928]), (ascii ''hudain'', [0x939, 0x941, 0x901, 0x926, 0x948, 0x928]),
    (ascii ''thiyo'', [0x925, 0x93F, 0x92F, 0x94B]), (ascii ''thiyen'', [0x925, 0x93F, 0x90F, 0x928]),
    (ascii ''hunchu'', [0x939, 0x941, 0x901, 0x91B, 0x941]), (ascii ''hunchau'', [0x939, 0x941, 0x901, 0x91B, 0x94C]),
    (ascii ''hunchan'', [0x939, 0x941, 0x901, 0x91B, 0x928, 0x94D]), (ascii ''garchu'', [0x917, 0x930, 0x94D, 0x91B, 0x941]),
    (ascii ''garchau'', [0x917, 0x930, 0x94D, 0x91B, 0x94C]), (ascii ''garchan'', [0x917, 0x930, 0x94D, 0x91B, 0x928, 0x94D]),
    (ascii ''bhanchu'', [0x92D, 0x928, 0x94D, 0x91B, 0x941]), (ascii ''bhanchau'', [0x92D, 0x928, 0x94D, 0x91B, 0x94C]),
    (ascii ''bhanchan'', [0x92D, 0x928, 0x94D, 0x91B, 0x928, 0x94D])]"

definition vowels :: "jsstring \<rightharpoonup> jsstring" where
  "vowels = map_of vowels_entries"

definition baseConsonants :: "jsstring \<rightharpoonup> jsstring" where
  "baseConsonants = map_of baseConsonants_entries"

definition halfConsonants :: "jsstring \<rightharpoonup> jsstring" where
  "halfConsonants = map_of halfConsonants_entries"

definition matras :: "jsstring \<rightharpoonup> jsstring" where
  "matras = map_of matras_entries"

definition consonantClusters :: "jsstring \<rightharpoonup> jsstring" where
  "consonantClusters = map_of consonantClusters_entries"

definition commonWords :: "jsstring \<rightharpoonup> jsstring" where
  "commonWords = map_of commonWords_entries"

text \<open>
  \<open>getMapping\<close> spreads four tables into one object; a later spread overrides an
  earlier one on a shared key, which is what \<open>++\<close> does on maps.
\<close>

definition getMapping :: "jsstring \<rightharpoonup> jsstring" where
  "getMapping = vowels ++ baseConsonants ++ consonantClusters ++ commonWords"

subsection \<open>Property access on a table object\<close>

text \<open>
  \<open>table[key]\<close> on an object literal also finds the members the object inherits from
  \<open>Object.prototype\<close>. They are listed below: eleven built-in functions, each with its
  name and its \<open>length\<close> property, and the accessor \<open>__proto__\<close>, which yields
  \<open>Object.prototype\<close> itself. Each name is longer than four code units, so the lookups
  of the composition loop, whose keys have at most four, only ever see a table's own
  entries and are modelled by the maps above. The whole-word lookup of \<open>convertWord\<close>
  takes a key of any length and is modelled by \<open>getProperty\<close>. Every table value is a
  non-empty string, hence truthy; an inherited member is a function or an object, truthy
  as well, and not a string.
\<close>

datatype member = FunctionObject jsstring nat | PrototypeObject

definition objectPrototype_entries :: "(jsstring \<times> member) list" where
  "objectPrototype_entries = [
    (ascii ''constructor'', FunctionObject (ascii ''Object'') 1),
    (ascii ''__proto__'', PrototypeObject),
    (ascii ''hasOwnProperty'', FunctionObject (ascii ''hasOwnProperty'') 1),
    (ascii ''isPrototypeOf'', FunctionObject (ascii ''isPrototypeOf'') 1),
    (ascii ''propertyIsEnumerable'', FunctionObject (ascii ''propertyIsEnumerable'') 1),
    (ascii ''toLocaleString'', FunctionObject (ascii ''toLocaleString'') 0),
    (ascii ''toString'', FunctionObject (ascii ''toString'') 0),
    (ascii ''valueOf'', FunctionObject (ascii ''valueOf'') 0),
    (ascii ''__defineGetter__'', FunctionObject (ascii ''__defineGetter__'') 2),
    (ascii ''__defineSetter__'', FunctionObject (ascii ''__defineSetter__'') 2),
    (ascii ''__lookupGetter__'', FunctionObject (ascii ''__lookupGetter__'') 1),
    (ascii ''__lookupSetter__'', FunctionObject (ascii ''__lookupSetter__'') 1)]"

definition objectPrototypeNames :: "jsstring list" where
  "objectPrototypeNames = map fst objectPrototype_entries"

datatype property = Undefined | Own jsstring | Inherited member

definition getProperty :: "(jsstring \<rightharpoonup> jsstring) \<Rightarrow> jsstring \<Rightarrow> property" where
  "getProperty table key =
     (case table key of
        Some v \<Rightarrow> Own v
      | None \<Rightarrow>
         (case map_of objectPrototype_entries key of
            Some m \<Rightarrow> Inherited m
          | None \<Rightarrow> Undefined))"

text \<open>
  A value that \<open>convertWord\<close> can return: a string on the right, an inherited member on
  the left. String concatenation and \<open>join\<close> convert a member to a string: a function
  to its source text, \<open>Object.prototype\<close> to \<open>[object Object]\<close>. The \<open>length\<close>
  property of a string is its number of code units, that of a function its number of
  parameters; \<open>Object.prototype\<close> has none (\<open>undefined\<close>).
\<close>

type_synonym jsvalue = "member + jsstring"

definition toStringValue :: "Host \<Rightarrow> jsvalue \<Rightarrow> jsstring" where
  "toStringValue host value =
     (case value of
        Inr s \<Rightarrow> s
      | Inl (FunctionObject name n) \<Rightarrow> functionSource host name
      | Inl PrototypeObject \<Rightarrow> ascii ''[object Object]'')"

definition lengthOf :: "jsvalue \<Rightarrow> int option" where
  "lengthOf value =
     (case value of
        Inr s \<Rightarrow> Some (int (length s))
      | Inl (FunctionObject name n) \<Rightarrow> Some (int n)
      | Inl PrototypeObject \<Rightarrow> None)"

section \<open>The converter (nepali-converter.ts)\<close>

record NepaliConverterConfig =
  autoConvertOnSpace :: bool
  caseSensitive :: bool
  preservePunctuation :: bool
  enableCommonWords :: bool

text \<open>The configuration a fresh \<open>NepaliConverterBuilder\<close> builds.\<close>

definition defaultConfig :: NepaliConverterConfig where
  "defaultConfig = \<lparr>autoConvertOnSpace = True, caseSensitive = False,
     preservePunctuation = True, enableCommonWords = True\<rparr>"

subsection \<open>convertAdvanced\<close>

text \<open>\<open>a[key] || b[key]\<close> on two tables.\<close>

definition clusterOrMapping :: "jsstring \<Rightarrow> jsstring option" where
  "clusterOrMapping key =
     (case consonantClusters key of Some v \<Rightarrow> Some v | None \<Rightarrow> getMapping key)"

text \<open>
  \<open>isConsonantChar\<close> and \<open>isVowelChar\<close>: membership in the table, or a match of the
  case-insensitive character class. Without the \<open>u\<close> flag the \<open>i\<close> flag folds ASCII
  letters only onto ASCII letters, so the class matches its letters in both cases.
\<close>

definition isConsonantChar :: "nat \<Rightarrow> bool" where
  "isConsonantChar c \<longleftrightarrow>
     baseConsonants [c] \<noteq> None \<or>
     c \<in> set (ascii ''kghcjtdnpbmyrlwvsh'') \<or> c \<in> set (ascii ''KGHCJTDNPBMYRLWVSH'')"

definition isVowelChar :: "nat \<Rightarrow> bool" where
  "isVowelChar c \<longleftrightarrow>
     vowels [c] \<noteq> None \<or> c \<in> set (ascii ''aeiou'') \<or> c \<in> set (ascii ''AEIOU'')"

text \<open>
  The three multi-character attempts of one loop iteration. Each yields the string the
  iteration appends when the attempt sets \<open>matched\<close>, and \<open>None\<close> when it does not.
\<close>

definition matchFour :: "jsstring \<Rightarrow> nat \<Rightarrow> jsstring option" where
  "matchFour text i =
     (if i + 4 \<le> length text then clusterOrMapping (substring text i (i + 4)) else None)"

definition matchThree :: "jsstring \<Rightarrow> nat \<Rightarrow> jsstring option" where
  "matchThree text i =
     (if i + 3 \<le> length text then clusterOrMapping (substring text i (i + 3)) else None)"

definition matchTwo :: "jsstring \<Rightarrow> nat \<Rightarrow> jsstring option" where
  "matchTwo text i =
     (if i + 2 \<le> length text then
        (let twoChar = substring text i (i + 2) in
         case consonantClusters twoChar of
           Some v \<Rightarrow> Some v
         | None \<Rightarrow>
            (case getMapping twoChar of
               Some v \<Rightarrow> Some v
             | None \<Rightarrow>
                (case (baseConsonants [twoChar ! 0], baseConsonants [twoChar ! 1]) of
                   (Some _, Some secondBase) \<Rightarrow>
                     (case halfConsonants [twoChar ! 0] of
                        Some firstHalf \<Rightarrow> Some (firstHalf @ secondBase)
                      | None \<Rightarrow> None)
                 | _ \<Rightarrow> None)))
      else None)"

text \<open>
  The single-character branch: the new \<open>result\<close> and the new \<open>i\<close>. It is entered with
  \<open>i < text.length\<close>.
\<close>

definition singleCharStep :: "jsstring \<Rightarrow> jsstring \<Rightarrow> nat \<Rightarrow> jsstring \<times> nat" where
  "singleCharStep text result i =
     (let singleChar = text ! i;
          nextChar = (if i + 1 < length text then Some (text ! (i + 1)) else None);
          nextTwoChar = (if i + 2 < length text then Some (substring text (i + 1) (i + 3))
                         else None);
          nextMatra = (case nextChar of None \<Rightarrow> None | Some c \<Rightarrow> matras [c]);
          nextTwoMatra = (case nextTwoChar of None \<Rightarrow> None | Some s \<Rightarrow> matras s)
      in case vowels [singleChar] of
           Some v \<Rightarrow> (result @ v, i + 1)
         | None \<Rightarrow>
            (case baseConsonants [singleChar] of
               Some base \<Rightarrow>
                 if (case nextChar of None \<Rightarrow> False
                     | Some c \<Rightarrow> isConsonantChar c \<and> \<not> isVowelChar c)
                 then
                   (case nextTwoMatra of
                      Some m \<Rightarrow> (result @ base @ m, i + 3)
                    | None \<Rightarrow>
                       (case nextMatra of
                          Some m \<Rightarrow> (result @ base @ m, i + 2)
                        | None \<Rightarrow>
                           (case halfConsonants [singleChar] of
                              Some halfConsonant \<Rightarrow> (result @ halfConsonant, i + 1)
                            | None \<Rightarrow> (result @ base, i + 1))))
                 else
                   (case nextMatra of
                      Some m \<Rightarrow> (result @ base @ m, i + 2)
                    | None \<Rightarrow>
                       (case nextTwoMatra of
                          Some m \<Rightarrow> (result @ base @ m, i + 3)
                        | None \<Rightarrow> (result @ base, i + 1)))
             | None \<Rightarrow> (result @ [singleChar], i + 1)))"

text \<open>One iteration of the \<open>while\<close> loop on the pair \<open>(result, i)\<close>.\<close>

definition loopBody :: "jsstring \<Rightarrow> jsstring \<times> nat \<Rightarrow> jsstring \<times> nat" where
  "loopBody text st =
     (case st of (result, i) \<Rightarrow>
        (case matchFour text i of
           Some v \<Rightarrow> (result @ v, i + 4)
         | None \<Rightarrow>
            (case matchThree text i of
               Some v \<Rightarrow> (result @ v, i + 3)
             | None \<Rightarrow>
                (case matchTwo text i of
                   Some v \<Rightarrow> (result @ v, i + 2)
                 | None \<Rightarrow> singleCharStep text result i))))"

function convertAdvanced_loop :: "jsstring \<Rightarrow> jsstring \<times> nat \<Rightarrow> jsstring" where
  "convertAdvanced_loop text st =
     (if snd st < length text then convertAdvanced_loop text (loopBody text st)
      else fst st)"
  by pat_completeness auto
termination
proof (relation "measure (\<lambda>(text, st). length text - snd st)")
  show "wf (measure (\<lambda>(text, st). length text - snd st))" by simp
next
  fix t :: jsstring and st :: "jsstring \<times> nat"
  assume "snd st < length t"
  moreover have "snd st < snd (loopBody t st)"
    by (cases st)
       (simp add: loopBody_def singleCharStep_def Let_def split: option.split)
  ultimately show "((t, loopBody t st), (t, st))
      \<in> measure (\<lambda>(text, st). length text - snd st)"
    by simp
qed

definition convertAdvanced :: "jsstring \<Rightarrow> jsstring" where
  "convertAdvanced text = (if text = [] then [] else convertAdvanced_loop text ([], 0))"

subsection \<open>convertWord\<close>

text \<open>
  \<open>convertWord\<close> is typed to return a string. When the whole-word lookup finds an
  inherited member, the code returns that member instead: the left summand.
\<close>

definition convertWord :: "Host \<Rightarrow> NepaliConverterConfig \<Rightarrow> jsstring \<Rightarrow> jsvalue" where
  "convertWord host config word =
     (if word = [] \<or> length (trim word) = 0 then Inr word
      else
        (let cleanWord = toLowerCase host (trim word) in
         if enableCommonWords config then
           (case getProperty commonWords cleanWord of
              Own v \<Rightarrow> Inr v
            | Inherited m \<Rightarrow> Inl m
            | Undefined \<Rightarrow> Inr (convertAdvanced cleanWord))
         else Inr (convertAdvanced cleanWord)))"

subsection \<open>convertText and splitText\<close>

text \<open>The character class \<open>[.,!?;:()\[\]{}'"]\<close> of \<open>splitText\<close>.\<close>

definition punctuationSet :: "nat list" where
  "punctuationSet = [0x2E, 0x2C, 0x21, 0x3F, 0x3B, 0x3A, 0x28, 0x29, 0x5B, 0x5D, 0x7B, 0x7D,
     0x27, 0x22]"

definition isSeparator :: "nat \<Rightarrow> bool" where
  "isSeparator c \<longleftrightarrow> c = 0x20 \<or> c \<in> set punctuationSet"

text \<open>
  The \<open>for\<close> loop of \<open>splitText\<close> over the remaining characters, with the array
  \<open>words\<close> and the buffer \<open>currentWord\<close>; the last equation is the push after the loop.
\<close>

fun splitText_loop :: "jsstring \<Rightarrow> jsstring list \<Rightarrow> jsstring \<Rightarrow> jsstring list" where
  "splitText_loop [] words currentWord =
     (if currentWord \<noteq> [] then words @ [currentWord] else words)"
| "splitText_loop (c # rest) words currentWord =
     (if isSeparator c then
        splitText_loop rest
          ((if currentWord \<noteq> [] then words @ [currentWord] else words) @ [[c]]) []
      else splitText_loop rest words (currentWord @ [c]))"

definition splitText :: "jsstring \<Rightarrow> jsstring list" where
  "splitText text = splitText_loop text [] []"

text \<open>\<open>/[a-zA-Z]/.test(word)\<close>.\<close>

definition isAsciiLetter :: "nat \<Rightarrow> bool" where
  "isAsciiLetter c \<longleftrightarrow> (0x41 \<le> c \<and> c \<le> 0x5A) \<or> (0x61 \<le> c \<and> c \<le> 0x7A)"

definition containsLetter :: "jsstring \<Rightarrow> bool" where
  "containsLetter word \<longleftrightarrow> list_ex isAsciiLetter word"

text \<open>
  \<open>words.map(...)\<close> followed by \<open>join('')\<close>, which converts every element to a string
  and concatenates.
\<close>

definition convertText :: "Host \<Rightarrow> NepaliConverterConfig \<Rightarrow> jsstring \<Rightarrow> jsstring" where
  "convertText host config text =
     (if text = [] \<or> length (trim text) = 0 then text
      else
        (let words = splitText text;
             convertedWords =
               map (\<lambda>word. if containsLetter word then convertWord host config word
                            else Inr word) words
         in concat (map (toStringValue host) convertedWords)))"

subsection \<open>handleSpaceKey\<close>

text \<open>\<open>\w\<close> without flags: ASCII letters, digits and the underscore.\<close>

definition isWordChar :: "nat \<Rightarrow> bool" where
  "isWordChar c \<longleftrightarrow> isAsciiLetter c \<or> (0x30 \<le> c \<and> c \<le> 0x39) \<or> c = 0x5F"

text \<open>
  \<open>s.match(/(\w+)\s*$/)\<close>. The search tries the start positions from the left; at a
  start position the greedy \<open>\w+\<close> takes the whole run of word characters, and giving
  some back cannot help, since \<open>\s\<close> and \<open>\w\<close> are disjoint. The result is capture
  group 1 of the leftmost match, or \<open>None\<close> for \<open>null\<close>.
\<close>

definition matchesAt :: "jsstring \<Rightarrow> nat \<Rightarrow> bool" where
  "matchesAt s k \<longleftrightarrow>
     (let run = takeWhile isWordChar (drop k s)
      in run \<noteq> [] \<and> list_all isWhiteSpace (drop (k + length run) s))"

definition lastWordMatch :: "jsstring \<Rightarrow> jsstring option" where
  "lastWordMatch s =
     (case find (matchesAt s) [0..<length s] of
        None \<Rightarrow> None
      | Some k \<Rightarrow> Some (takeWhile isWordChar (drop k s)))"

text \<open>\<open>s.lastIndexOf(w)\<close>: the greatest index where \<open>w\<close> occurs in \<open>s\<close>, or \<open>-1\<close>.\<close>

definition occursAt :: "jsstring \<Rightarrow> jsstring \<Rightarrow> nat \<Rightarrow> bool" where
  "occursAt s w k \<longleftrightarrow> take (length w) (drop k s) = w"

definition lastIndexOf :: "jsstring \<Rightarrow> jsstring \<Rightarrow> int" where
  "lastIndexOf s w =
     (case find (occursAt s w) (rev [0..<Suc (length s)]) of
        None \<Rightarrow> - 1
      | Some k \<Rightarrow> int k)"

text \<open>
  An index argument of \<open>substring\<close> that may be negative or too large is clamped. The
  cursor position passed in is an integer here; a fractional position or \<open>NaN\<close> as
  argument is outside the model. The position returned is a number that can be \<open>NaN\<close>:
  adding \<open>undefined\<close> gives \<open>NaN\<close>.
\<close>

datatype jsnumber = Number int | NaN

definition clampIndex :: "jsstring \<Rightarrow> int \<Rightarrow> nat" where
  "clampIndex s n = nat (max 0 (min n (int (length s))))"

record SpaceKeyResult =
  convertedText :: jsstring
  newCursorPosition :: jsnumber

definition handleSpaceKey ::
  "Host \<Rightarrow> NepaliConverterConfig \<Rightarrow> jsstring \<Rightarrow> int \<Rightarrow> SpaceKeyResult" where
  "handleSpaceKey host config text cursorPosition =
     (if \<not> autoConvertOnSpace config then
        \<lparr>convertedText = text, newCursorPosition = Number cursorPosition\<rparr>
      else
        (let beforeCursor = substring text 0 (clampIndex text cursorPosition);
             afterCursor = substring text (clampIndex text cursorPosition) (length text)
         in case lastWordMatch beforeCursor of
              Some lastWord \<Rightarrow>
                (let wordStart = lastIndexOf beforeCursor lastWord;
                     beforeWord = substring beforeCursor 0 (clampIndex beforeCursor wordStart);
                     convertedWord = convertWord host config lastWord
                 in \<lparr>convertedText =
                        beforeWord @ toStringValue host convertedWord @ [0x20] @ afterCursor,
                      newCursorPosition =
                        (case lengthOf convertedWord of
                           Some n \<Rightarrow> Number (int (length beforeWord) + n + 1)
                         | None \<Rightarrow> NaN)\<rparr>)
            | None \<Rightarrow>
                \<lparr>convertedText = text @ [0x20],
                 newCursorPosition = Number (cursorPosition + 1)\<rparr>))"

section \<open>Notions the properties are stated with\<close>

text \<open>
  The consonant and vowel alphabet of the symbol tables: the characters that occur in a
  key of \<open>vowels\<close> or of \<open>baseConsonants\<close>.
\<close>

definition inAlphabet :: "nat \<Rightarrow> bool" where
  "inAlphabet c \<longleftrightarrow>
     list_ex (\<lambda>(k, v). c \<in> set k) (vowels_entries @ baseConsonants_entries)"


section \<open>Evaluating the model on concrete strings\<close>

text \<open>
  The code units of the printable ASCII characters, and the tables with their keys
  written as code units. The rewrite rules below evaluate the converter on a concrete
  word inside the simplifier.
\<close>

lemma of_char_units:
  "of_char CHR '' '' = (32::nat)" "of_char CHR ''!'' = (33::nat)" "of_char CHR ''#'' = (35::nat)"
  "of_char CHR ''$'' = (36::nat)" "of_char CHR ''%'' = (37::nat)" "of_char CHR ''&'' = (38::nat)"
  "of_char CHR ''('' = (40::nat)" "of_char CHR '')'' = (41::nat)" "of_char CHR ''*'' = (42::nat)"
  "of_char CHR ''+'' = (43::nat)" "of_char CHR '','' = (44::nat)" "of_char CHR ''-'' = (45::nat)"
  "of_char CHR ''.'' = (46::nat)" "of_char CHR ''/'' = (47::nat)" "of_char CHR ''0'' = (48::nat)"
  "of_char CHR ''1'' = (49::nat)" "of_char CHR ''2'' = (50::nat)" "of_char CHR ''3'' = (51::nat)"
  "of_char CHR ''4'' = (52::nat)" "of_char CHR ''5'' = (53::nat)" "of_char CHR ''6'' = (54::nat)"
  "of_char CHR ''7'' = (55::nat)" "of_char CHR ''8'' = (56::nat)" "of_char CHR ''9'' = (57::nat)"
  "of_char CHR '':'' = (58::nat)" "of_char CHR '';'' = (59::nat)" "of_char CHR ''<'' = (60::nat)"
  "of_char CHR ''='' = (61::nat)" "of_char CHR ''>'' = (62::nat)" "of_char CHR ''?'' = (63::nat)"
  "of_char CHR ''@'' = (64::nat)" "of_char CHR ''A'' = (65::nat)" "of_char CHR ''B'' = (66::nat)"
  "of_char CHR ''C'' = (67::nat)" "of_char CHR ''D'' = (68::nat)" "of_char CHR ''E'' = (69::nat)"
  "of_char CHR ''F'' = (70::nat)" "of_char CHR ''G'' = (71::nat)" "of_char CHR ''H'' = (72::nat)"
  "of_char CHR ''I'' = (73::nat)" "of_char CHR ''J'' = (74::nat)" "of_char CHR ''K'' = (75::nat)"
  "of_char CHR ''L'' = (76::nat)" "of_char CHR ''M'' = (77::nat)" "of_char CHR ''N'' = (78::nat)"
  "of_char CHR ''O'' = (79::nat)" "of_char CHR ''P'' = (80::nat)" "of_char CHR ''Q'' = (81::nat)"
  "of_char CHR ''R'' = (82::nat)" "of_char CHR ''S'' = (83::nat)" "of_char CHR ''T'' = (84::nat)"
  "of_char CHR ''U'' = (85::nat)" "of_char CHR ''V'' = (86::nat)" "of_char CHR ''W'' = (87::nat)"
  "of_char CHR ''X'' = (88::nat)" "of_char CHR ''Y'' = (89::nat)" "of_char CHR ''Z'' = (90::nat)"
  "of_char CHR ''['' = (91::nat)" "of_char CHR '']'' = (93::nat)" "of_char CHR ''^'' = (94::nat)"
  "of_char CHR ''_'' = (95::nat)" "of_char CHR ''`'' = (96::nat)" "of_char CHR ''a'' = (97::nat)"
  "of_char CHR ''b'' = (98::nat)" "of_char CHR ''c'' = (99::nat)" "of_char CHR ''d'' = (100::nat)"
  "of_char CHR ''e'' = (101::nat)" "of_char CHR ''f'' = (102::nat)" "of_char CHR ''g'' = (103::nat)"
  "of_char CHR ''h'' = (104::nat)" "of_char CHR ''i'' = (105::nat)" "of_char CHR ''j'' = (106::nat)"
  "of_char CHR ''k'' = (107::nat)" "of_char CHR ''l'' = (108::nat)" "of_char CHR ''m'' = (109::nat)"
  "of_char CHR ''n'' = (110::nat)" "of_char CHR ''o'' = (111::nat)" "of_char CHR ''p'' = (112::nat)"
  "of_char CHR ''q'' = (113::nat)" "of_char CHR ''r'' = (114::nat)" "of_char CHR ''s'' = (115::nat)"
  "of_char CHR ''t'' = (116::nat)" "of_char CHR ''u'' = (117::nat)" "of_char CHR ''v'' = (118::nat)"
  "of_char CHR ''w'' = (119::nat)" "of_char CHR ''x'' = (120::nat)" "of_char CHR ''y'' = (121::nat)"
  "of_char CHR ''z'' = (122::nat)" "of_char CHR ''{'' = (123::nat)" "of_char CHR ''|'' = (124::nat)"
  "of_char CHR ''}'' = (125::nat)" "of_char CHR ''~'' = (126::nat)"
  by simp_all

lemma ascii_simps: "ascii [] = []" "ascii (c # cs) = of_char c # ascii cs"
  by (simp_all add: ascii_def)

lemma map_of_hit: "map_of ((k, v) # ps) k = Some v"
  by simp

lemma map_of_miss: "k' \<noteq> k \<Longrightarrow> map_of ((k', v) # ps) k = map_of ps k"
  by simp

lemma map_of_Nil: "map_of [] k = None"
  by simp

lemma four_eq_Suc: "(4::nat) = Suc (Suc (Suc (Suc 0)))"
  by simp

lemmas entries_units =
  vowels_entries_def [unfolded ascii_simps of_char_units]
  baseConsonants_entries_def [unfolded ascii_simps of_char_units]
  halfConsonants_entries_def [unfolded ascii_simps of_char_units]
  matras_entries_def [unfolded ascii_simps of_char_units]
  consonantClusters_entries_def [unfolded ascii_simps of_char_units]
  commonWords_entries_def [unfolded ascii_simps of_char_units]

lemmas table_eval =
  ascii_simps of_char_units fst_conv snd_conv map_of_hit map_of_miss map_of_Nil
  list.inject list.distinct rel_simps simp_thms if_True if_False
  option.case option.distinct option.inject map_add_def
  vowels_def baseConsonants_def halfConsonants_def matras_def consonantClusters_def
  commonWords_def getMapping_def entries_units

lemmas nat_eval =
  One_nat_def numeral_2_eq_2 numeral_3_eq_3 four_eq_Suc add_Suc add_Suc_right add_0
  add.right_neutral Suc_le_mono le0 le_0_eq nat.distinct nat.inject Suc_less_eq
  zero_less_Suc not_less0 min_def max_def diff_Suc_Suc minus_nat.diff_0 diff_0_eq_0
  list.size take_Suc_Cons take_0 take.simps(1) drop_Suc_Cons drop_0 drop.simps(1)
  nth_Cons_0 nth_Cons_Suc append.simps append_Nil2 list.set insert_iff empty_iff

lemmas converter_eval =
  convertAdvanced_def convertAdvanced_loop.simps loopBody_def matchFour_def
  matchThree_def matchTwo_def singleCharStep_def Let_def clusterOrMapping_def
  substring_def isConsonantChar_def isVowelChar_def prod.case convertWord_def
  getProperty_def objectPrototype_entries_def trim_def toLowerCase_def lowerAscii_def
  isWhiteSpace_def rev.simps dropWhile.simps list.map list.pred_inject arith_simps
  property.case defaultConfig_def NepaliConverterConfig.simps sum.inject

lemmas eval_cong =
  if_weak_cong option.case_cong_weak let_weak_cong prod.case_cong_weak
  property.case_cong_weak

declare convertAdvanced_loop.simps [simp del]

text \<open>
  No table repeats a key, and every inherited name is longer than the four characters
  the composition loop looks up at most.
\<close>

lemma table_keys_distinct:
  "distinct (map fst vowels_entries)"
  "distinct (map fst baseConsonants_entries)"
  "distinct (map fst halfConsonants_entries)"
  "distinct (map fst matras_entries)"
  "distinct (map fst consonantClusters_entries)"
  "distinct (map fst commonWords_entries)"
  by (simp_all only: entries_units list.map fst_conv distinct.simps list.set insert_iff
      empty_iff list.inject list.distinct rel_simps simp_thms)

lemma inherited_names_long: "list_all (\<lambda>name. 4 < length name) objectPrototypeNames"
  by (simp add: objectPrototypeNames_def objectPrototype_entries_def ascii_def)

section \<open>Degenerate input, flags that are never read\<close>

lemma dropWhile_all: "list_all P xs \<Longrightarrow> dropWhile P xs = []"
  by (induction xs) simp_all

lemma trim_whitespace: "list_all isWhiteSpace word \<Longrightarrow> trim word = []"
  by (simp add: trim_def dropWhile_all)

text \<open>
  Claim C8. An input that is empty or made of white space only comes back from
  \<open>convertWord\<close> as it is, on every host and in every configuration.
\<close>

theorem convertWord_whitespace_unchanged:
  "list_all isWhiteSpace word \<Longrightarrow> convertWord host config word = Inr word"
  by (simp add: convertWord_def trim_whitespace)

theorem convertWord_whitespace_unchanged_witness:
  "list_all isWhiteSpace [0x20, 0x09, 0x0A] \<and>
   convertWord sampleHost defaultConfig [0x20, 0x09, 0x0A] = Inr [0x20, 0x09, 0x0A] \<and>
   convertWord sampleHost defaultConfig [] = Inr []"
  using convertWord_whitespace_unchanged [of "[0x20, 0x09, 0x0A]" sampleHost defaultConfig]
    convertWord_whitespace_unchanged [of "[]" sampleHost defaultConfig]
  by (simp add: isWhiteSpace_def)

text \<open>
  Claim C5 says that with the trigger-on-space flag off, \<open>handleSpaceKey\<close> returns the
  text unchanged and the cursor advanced by one. The code returns the cursor position it
  was given: for the text \<open>mero\<close> and cursor 4 the result is not the pair of the text and
  position 5.
\<close>

theorem handleSpaceKey_disabled_counterexample:
  "handleSpaceKey sampleHost (defaultConfig\<lparr>autoConvertOnSpace := False\<rparr>)
     (ascii ''mero'') 4
     \<noteq> \<lparr>convertedText = ascii ''mero'', newCursorPosition = Number (4 + 1)\<rparr>"
  by (simp add: handleSpaceKey_def defaultConfig_def)

text \<open>
  Claim C5, amended. With the trigger-on-space flag off, \<open>handleSpaceKey\<close> returns the
  text unchanged and the cursor position unchanged, whatever the text and the position.
\<close>

theorem handleSpaceKey_disabled:
  "\<not> autoConvertOnSpace config \<Longrightarrow>
   handleSpaceKey host config text cursorPosition =
     \<lparr>convertedText = text, newCursorPosition = Number cursorPosition\<rparr>"
  by (simp add: handleSpaceKey_def)

theorem handleSpaceKey_disabled_witness:
  "\<not> autoConvertOnSpace (defaultConfig\<lparr>autoConvertOnSpace := False\<rparr>) \<and>
   handleSpaceKey sampleHost (defaultConfig\<lparr>autoConvertOnSpace := False\<rparr>)
     (ascii ''mero'') 4 =
     \<lparr>convertedText = ascii ''mero'', newCursorPosition = Number 4\<rparr>"
  using handleSpaceKey_disabled
    [of "defaultConfig\<lparr>autoConvertOnSpace := False\<rparr>" sampleHost "ascii ''mero''" 4]
  by (simp add: defaultConfig_def)

lemma convertWord_preservePunctuation:
  "convertWord host (config\<lparr>preservePunctuation := b\<rparr>) word =
     convertWord host config word"
  by (simp add: convertWord_def)

text \<open>
  Claim C10. No operation reads the \<open>preservePunctuation\<close> field: setting it to any
  value leaves the results of \<open>convertWord\<close>, \<open>convertText\<close> and \<open>handleSpaceKey\<close>
  as they were, for every input and every configuration.
\<close>

theorem preservePunctuation_never_read:
  "convertWord host (config\<lparr>preservePunctuation := b\<rparr>) word =
     convertWord host config word \<and>
   convertText host (config\<lparr>preservePunctuation := b\<rparr>) text =
     convertText host config text \<and>
   handleSpaceKey host (config\<lparr>preservePunctuation := b\<rparr>) text cursorPosition =
     handleSpaceKey host config text cursorPosition"
  unfolding convertText_def handleSpaceKey_def
  by (simp only: convertWord_preservePunctuation) simp

section \<open>Case normalisation and whole-word exceptions\<close>

text \<open>
  Claim C3 says that \<open>convertWord\<close> keeps the letter case when case-sensitive matching
  is enabled, so that the upper-case keys of the tables can match. The code lower-cases
  unconditionally: with \<open>caseSensitive\<close> set, the word \<open>T\<close> is looked up as \<open>t\<close> and
  yields the value of the key \<open>t\<close>, not the value the table holds for \<open>T\<close>.
\<close>

theorem convertWord_caseSensitive_T:
  "convertWord host (defaultConfig\<lparr>caseSensitive := True\<rparr>) (ascii ''T'') = Inr [0x924] \<and>
   baseConsonants (ascii ''t'') = Some [0x924] \<and>
   baseConsonants (ascii ''T'') = Some [0x91F]"
  by (simp only: table_eval nat_eval converter_eval cong: eval_cong)

lemma commonWords_empty_key: "commonWords [] = None"
  by (simp only: table_eval)

text \<open>
  Claim C4. When whole-word exceptions are enabled and the trimmed, lower-cased word is a
  key of the exception table, \<open>convertWord\<close> returns the table's value for it. The
  composition algorithm is not consulted, also where it would give something else: for
  \<open>kasto\<close> it composes a different string.
\<close>

theorem convertWord_exception_verbatim:
  assumes "enableCommonWords config"
    and "commonWords (toLowerCase host (trim word)) = Some v"
  shows "convertWord host config word = Inr v"
proof -
  have "toLowerCase host (trim word) \<noteq> []"
    using assms(2) commonWords_empty_key by auto
  then have "trim word \<noteq> []"
    by (auto simp: toLowerCase_def)
  moreover from this have "word \<noteq> []"
    by (auto simp: trim_def)
  ultimately show ?thesis
    using assms by (simp add: convertWord_def getProperty_def)
qed

lemma kasto_exception:
  "commonWords (toLowerCase host (trim (ascii '' Kasto''))) =
     Some [0x915, 0x938, 0x94D, 0x924, 0x94B]"
  by (simp only: table_eval nat_eval converter_eval cong: eval_cong)

lemma kasto_composed:
  "convertAdvanced (ascii ''kasto'') = [0x915, 0x93E, 0x938, 0x94D, 0x924, 0x94B]"
  by (simp only: table_eval nat_eval converter_eval cong: eval_cong)

theorem convertWord_exception_verbatim_witness:
  "enableCommonWords defaultConfig \<and>
   commonWords (toLowerCase sampleHost (trim (ascii '' Kasto''))) =
     Some [0x915, 0x938, 0x94D, 0x924, 0x94B] \<and>
   convertWord sampleHost defaultConfig (ascii '' Kasto'') =
     Inr [0x915, 0x938, 0x94D, 0x924, 0x94B] \<and>
   convertAdvanced (ascii ''kasto'') \<noteq> [0x915, 0x938, 0x94D, 0x924, 0x94B]"
  using convertWord_exception_verbatim [OF _ kasto_exception, of defaultConfig sampleHost]
    kasto_exception [of sampleHost] kasto_composed
  by (simp add: defaultConfig_def)

section \<open>Exceptions reach the composition loop through the merged mapping\<close>

lemma short_exceptions_compose:
  "list_all (\<lambda>(k, v). if length k \<le> 4 then convertAdvanced k = v else True)
     commonWords_entries"
  by (simp only: table_eval nat_eval converter_eval list.pred_inject cong: eval_cong)

lemma short_exception_composed:
  assumes "commonWords k = Some v" and "length k \<le> 4"
  shows "convertAdvanced k = v"
proof -
  have "(k, v) \<in> set commonWords_entries"
    using assms(1) by (auto simp: commonWords_def dest: map_of_SomeD)
  then show ?thesis
    using short_exceptions_compose assms(2) by (auto simp: list_all_iff)
qed

text \<open>
  Claim C9. When the trimmed, lower-cased word is an exception key of at most four
  characters, \<open>convertWord\<close> returns the exception's value whatever the configuration
  is, so also with whole-word exceptions disabled: the exceptions are part of the mapping
  that the composition loop consults.
\<close>

theorem short_exception_despite_flag:
  assumes "commonWords (toLowerCase host (trim word)) = Some v"
    and "length (toLowerCase host (trim word)) \<le> 4"
  shows "convertWord host config word = Inr v"
proof -
  have "toLowerCase host (trim word) \<noteq> []"
    using assms(1) commonWords_empty_key by auto
  then have "trim word \<noteq> []"
    by (auto simp: toLowerCase_def)
  moreover from this have "word \<noteq> []"
    by (auto simp: trim_def)
  moreover have "convertAdvanced (toLowerCase host (trim word)) = v"
    using assms by (rule short_exception_composed)
  ultimately show ?thesis
    using assms(1) by (simp add: convertWord_def getProperty_def Let_def)
qed

lemma ram_exception:
  "commonWords (toLowerCase host (trim (ascii ''Ram''))) = Some [0x930, 0x93E, 0x92E]"
  by (simp only: table_eval nat_eval converter_eval cong: eval_cong)

lemma ram_length: "length (toLowerCase host (trim (ascii ''Ram''))) \<le> 4"
  by (simp add: toLowerCase_def trim_def ascii_def isWhiteSpace_def)

theorem short_exception_despite_flag_witness:
  "commonWords (toLowerCase sampleHost (trim (ascii ''Ram''))) = Some [0x930, 0x93E, 0x92E] \<and>
   length (toLowerCase sampleHost (trim (ascii ''Ram''))) \<le> 4 \<and>
   \<not> enableCommonWords (defaultConfig\<lparr>enableCommonWords := False\<rparr>) \<and>
   convertWord sampleHost (defaultConfig\<lparr>enableCommonWords := False\<rparr>) (ascii ''Ram'') =
     Inr [0x930, 0x93E, 0x92E]"
  using short_exception_despite_flag [OF ram_exception ram_length,
      of sampleHost "defaultConfig\<lparr>enableCommonWords := False\<rparr>"]
    ram_exception [of sampleHost] ram_length [of sampleHost]
  by simp

section \<open>Words outside the alphabet\<close>

lemma inAlphabet_iff:
  "inAlphabet c \<longleftrightarrow> c \<in> set (ascii ''aiueoAIEOUkhgncjytdTDNpbmrlwvsS'')"
  unfolding inAlphabet_def
  apply (simp only: entries_units append.simps list_ex_Nil_iff list_ex_Cons_iff prod.case list.set insert_iff
      empty_iff ascii_simps of_char_units simp_thms)
  apply blast
  done

lemmas alphabet_eval =
  inAlphabet_iff ascii_simps of_char_units list.set insert_iff empty_iff rel_simps simp_thms
  list.pred_inject prod.case list.sel list.distinct entries_units

lemma keys_start_in_alphabet:
  "list_all (\<lambda>(k, v). k \<noteq> [] \<and> inAlphabet (hd k)) vowels_entries"
  "list_all (\<lambda>(k, v). k \<noteq> [] \<and> inAlphabet (hd k)) baseConsonants_entries"
  "list_all (\<lambda>(k, v). k \<noteq> [] \<and> inAlphabet (hd k)) consonantClusters_entries"
  "list_all (\<lambda>(k, v). k \<noteq> [] \<and> inAlphabet (hd k)) commonWords_entries"
  by (simp_all only: alphabet_eval)

lemma entry_start_in_alphabet:
  assumes "list_all (\<lambda>(k, v). k \<noteq> [] \<and> inAlphabet (hd k)) entries"
    and "map_of entries k = Some v"
  shows "k \<noteq> [] \<and> inAlphabet (hd k)"
  using assms by (auto simp: list_all_iff dest!: map_of_SomeD)

lemma table_key_starts_in_alphabet:
  assumes "vowels k = Some v \<or> baseConsonants k = Some v \<or> consonantClusters k = Some v \<or>
    commonWords k = Some v \<or> getMapping k = Some v"
  shows "k \<noteq> [] \<and> inAlphabet (hd k)"
proof -
  have "map_of vowels_entries k = Some v \<or> map_of baseConsonants_entries k = Some v \<or>
    map_of consonantClusters_entries k = Some v \<or> map_of commonWords_entries k = Some v"
    using assms
    by (auto simp: vowels_def baseConsonants_def consonantClusters_def commonWords_def
      getMapping_def)
  then show ?thesis
    using keys_start_in_alphabet by (blast dest: entry_start_in_alphabet)
qed

lemma no_key_outside_alphabet:
  assumes "k \<noteq> []" and "\<not> inAlphabet (hd k)"
  shows "vowels k = None" "baseConsonants k = None" "consonantClusters k = None"
    "commonWords k = None" "getMapping k = None"
proof -
  have "\<And>v. \<not> (vowels k = Some v \<or> baseConsonants k = Some v \<or>
      consonantClusters k = Some v \<or> commonWords k = Some v \<or> getMapping k = Some v)"
    using assms table_key_starts_in_alphabet [of k] by blast
  then show "vowels k = None" "baseConsonants k = None" "consonantClusters k = None"
    "commonWords k = None" "getMapping k = None"
    by (metis option.exhaust)+
qed

lemma inherited_names_touch_alphabet:
  "list_all (list_ex inAlphabet) objectPrototypeNames"
  by (simp only: objectPrototypeNames_def objectPrototype_entries_def list.map fst_conv
      alphabet_eval list_ex_Nil_iff list_ex_Cons_iff)

lemma substring_window:
  "i + n \<le> length text \<Longrightarrow> substring text i (i + n) = take n (drop i text)"
  by (simp add: substring_def min_def max_def)

lemma window_hd:
  "i < length text \<Longrightarrow> 0 < n \<Longrightarrow> take n (drop i text) \<noteq> [] \<and> hd (take n (drop i text)) = text ! i"
  by (cases n) (simp_all add: hd_drop_conv_nth)

lemma loopBody_outside_alphabet:
  assumes "i < length text" and "\<not> inAlphabet (text ! i)"
  shows "loopBody text (result, i) = (result @ [text ! i], i + 1)"
proof -
  have win: "consonantClusters (take n (drop i text)) = None \<and>
      getMapping (take n (drop i text)) = None" if "0 < n" for n
    using assms window_hd [of i "text" n] that
    by (simp add: no_key_outside_alphabet)
  have one: "vowels [text ! i] = None" "baseConsonants [text ! i] = None"
    using assms(2) by (simp_all add: no_key_outside_alphabet)
  have four: "matchFour text i = None"
    using win [of 4] by (simp add: matchFour_def clusterOrMapping_def substring_window)
  have three: "matchThree text i = None"
    using win [of 3] by (simp add: matchThree_def clusterOrMapping_def substring_window)
  have two: "matchTwo text i = None"
  proof (cases "i + 2 \<le> length text")
    case True
    then have sub: "substring text i (i + 2) = take 2 (drop i text)"
      by (rule substring_window)
    have "take 2 (drop i text) ! 0 = text ! i"
      using True by simp
    then show ?thesis
      unfolding matchTwo_def sub
      using win [of 2] True one by (simp add: Let_def)
  next
    case False
    then show ?thesis by (simp add: matchTwo_def)
  qed
  show ?thesis
    using four three two one by (simp add: loopBody_def singleCharStep_def Let_def)
qed

lemma loop_outside_alphabet:
  assumes "\<forall>c \<in> set text. \<not> inAlphabet c"
  shows "i \<le> length text \<Longrightarrow> convertAdvanced_loop text (result, i) = result @ drop i text"
proof (induction "length text - i" arbitrary: i result)
  case 0
  then show ?case
    by (simp add: convertAdvanced_loop.simps)
next
  case (Suc d)
  then have lt: "i < length text" by simp
  then have "\<not> inAlphabet (text ! i)"
    using assms by simp
  then have body: "loopBody text (result, i) = (result @ [text ! i], i + 1)"
    by (rule loopBody_outside_alphabet [OF lt])
  have "convertAdvanced_loop text (result, i) =
      convertAdvanced_loop text (result @ [text ! i], i + 1)"
    using lt body by (subst convertAdvanced_loop.simps) simp
  also have "\<dots> = (result @ [text ! i]) @ drop (i + 1) text"
    using Suc.hyps(1) [of "i + 1" "result @ [text ! i]"] Suc.hyps(2) lt by simp
  also have "\<dots> = result @ drop i text"
    using lt by (simp add: Cons_nth_drop_Suc)
  finally show ?case .
qed

lemma convertAdvanced_outside_alphabet:
  "\<forall>c \<in> set text. \<not> inAlphabet c \<Longrightarrow> convertAdvanced text = text"
  using loop_outside_alphabet [of "text" 0 "[]"] by (simp add: convertAdvanced_def)

text \<open>
  Claim C7 says that \<open>convertWord\<close> is the identity on every word made of characters
  outside the consonant and vowel alphabet. The word \<open>Q\<close> is such a word, and
  \<open>convertWord\<close> lower-cases it.
\<close>

theorem convertWord_identity_counterexample:
  "\<not> inAlphabet (of_char CHR ''Q'') \<and>
   convertWord sampleHost defaultConfig (ascii ''Q'') = Inr (ascii ''q'') \<and>
   ascii ''q'' \<noteq> ascii ''Q''"
proof -
  have "\<not> inAlphabet (of_char CHR ''Q'')"
    by (simp only: alphabet_eval)
  moreover have "convertWord sampleHost defaultConfig (ascii ''Q'') = Inr (ascii ''q'')"
    by (simp only: table_eval nat_eval converter_eval cong: eval_cong)
  moreover have "ascii ''q'' \<noteq> ascii ''Q''"
    by (simp only: table_eval)
  ultimately show ?thesis by simp
qed

text \<open>
  Claim C7, amended. On every word made of characters outside the consonant and vowel
  alphabet that trimming and lower-casing leave as it is (no white space at either end,
  no letter that the host's \<open>toLowerCase\<close> changes), \<open>convertWord\<close> is the identity,
  whatever the case tables of the host are.
\<close>

theorem convertWord_identity_outside_alphabet:
  assumes "\<forall>c \<in> set word. \<not> inAlphabet c"
    and "toLowerCase host (trim word) = word"
  shows "convertWord host config word = Inr word"
proof (cases "word = []")
  case True
  then show ?thesis by (simp add: convertWord_def)
next
  case False
  then have "\<not> inAlphabet (hd word)"
    using assms(1) by simp
  then have own: "commonWords word = None"
    by (rule no_key_outside_alphabet(4) [OF False])
  have "word \<notin> set objectPrototypeNames"
    using inherited_names_touch_alphabet assms(1)
    by (auto simp: list_all_iff list_ex_iff)
  then have "map_of objectPrototype_entries word = None"
    by (simp add: objectPrototypeNames_def map_of_eq_None_iff)
  then have "getProperty commonWords word = Undefined"
    using own by (simp add: getProperty_def)
  then show ?thesis
    using assms convertAdvanced_outside_alphabet [of "word"]
    by (simp add: convertWord_def Let_def)
qed

theorem convertWord_identity_outside_alphabet_witness:
  "list_all (\<lambda>c. \<not> inAlphabet c) (ascii ''2024-#'') \<and>
   toLowerCase sampleHost (trim (ascii ''2024-#'')) = ascii ''2024-#'' \<and>
   convertWord sampleHost defaultConfig (ascii ''2024-#'') = Inr (ascii ''2024-#'')"
proof -
  have a: "\<forall>c \<in> set (ascii ''2024-#''). \<not> inAlphabet c"
    by (simp only: alphabet_eval ball_simps)
  have b: "toLowerCase sampleHost (trim (ascii ''2024-#'')) = ascii ''2024-#''"
    by (simp only: table_eval nat_eval converter_eval cong: eval_cong)
  show ?thesis
    using convertWord_identity_outside_alphabet [OF a b, of defaultConfig] a b
    by (simp add: list_all_iff)
qed

section \<open>Longest match in the composition loop\<close>










section \<open>The space key\<close>


lemma wordChar_not_whiteSpace: "isWordChar c \<Longrightarrow> \<not> isWhiteSpace c"
  by (auto simp: isWordChar_def isAsciiLetter_def isWhiteSpace_def)

lemma matchesAt_run_start:
  assumes "run \<noteq> []" and "list_all isWordChar run"
  shows "matchesAt (pre @ run) (length pre)"
    and "takeWhile isWordChar (drop (length pre) (pre @ run)) = run"
proof -
  have tw: "takeWhile isWordChar run = run"
    using assms(2) by (simp add: takeWhile_eq_all_conv list_all_iff)
  show "matchesAt (pre @ run) (length pre)"
    and "takeWhile isWordChar (drop (length pre) (pre @ run)) = run"
    using assms(1) by (simp_all add: matchesAt_def Let_def tw)
qed

lemma matchesAt_not_before:
  assumes "run \<noteq> []" and "list_all isWordChar run"
    and "\<not> isWordChar (last pre)" and "j < length pre"
  shows "\<not> matchesAt (pre @ run) j"
proof -
  define d where "d = drop j pre"
  define r where "r = takeWhile isWordChar d"
  have d_ne: "d \<noteq> []"
    using assms(4) by (simp add: d_def)
  have "last d = last pre"
    using assms(4) by (simp add: d_def)
  then have "\<not> isWordChar (last d)"
    using assms(3) by simp
  moreover have "last d \<in> set d"
    using d_ne by (rule last_in_set)
  ultimately have stop: "last d \<in> set d" "\<not> isWordChar (last d)"
    by simp_all
  have tw: "takeWhile isWordChar (drop j (pre @ run)) = r"
    using stop assms(4) by (simp add: d_def [symmetric] r_def takeWhile_append1)
  have "length r \<le> length d"
    by (simp add: r_def length_takeWhile_le)
  then have "j + length r \<le> length pre"
    using assms(4) by (simp add: d_def)
  then have rest: "drop (j + length r) (pre @ run) = drop (length r) d @ run"
    by (simp add: d_def add.commute)
  have "isWordChar (hd run)"
    using assms(1,2) by (cases run) simp_all
  then have "\<not> list_all isWhiteSpace (drop (length r) d @ run)"
    using assms(1) wordChar_not_whiteSpace [of "hd run"] by (cases run) simp_all
  then show ?thesis
    unfolding matchesAt_def Let_def tw rest by simp
qed

lemma lastWordMatch_run:
  assumes "run \<noteq> []" and "list_all isWordChar run"
    and "pre = [] \<or> \<not> isWordChar (last pre)"
  shows "lastWordMatch (pre @ run) = Some run"
proof -
  have "find (matchesAt (pre @ run)) [0..<length (pre @ run)] = Some (length pre)"
  proof (subst find_Some_iff, intro exI [of _ "length pre"] conjI allI impI)
    show "length pre < length [0..<length (pre @ run)]"
      using assms(1) by simp
    show "matchesAt (pre @ run) ([0..<length (pre @ run)] ! length pre)"
      using assms(1,2) matchesAt_run_start(1) [of run pre] by simp
    show "length pre = [0..<length (pre @ run)] ! length pre"
      using assms(1) by simp
  next
    fix j assume j: "j < length pre"
    then have "pre \<noteq> []" by auto
    then have "\<not> isWordChar (last pre)"
      using assms(3) by simp
    then have "\<not> matchesAt (pre @ run) j"
      using j by (rule matchesAt_not_before [OF assms(1,2)])
    then show "\<not> matchesAt (pre @ run) ([0..<length (pre @ run)] ! j)"
      using j by simp
  qed
  then show ?thesis
    using matchesAt_run_start(2) [OF assms(1,2), of pre] by (simp add: lastWordMatch_def)
qed

lemma find_downwards:
  assumes "P k" and "k \<le> n" and "\<forall>j. k < j \<and> j \<le> n \<longrightarrow> \<not> P j"
  shows "find P (rev [0..<Suc n]) = Some k"
  using assms
proof (induction n)
  case 0
  then show ?case by simp
next
  case (Suc n)
  show ?case
  proof (cases "k = Suc n")
    case True
    then show ?thesis using Suc.prems(1) by simp
  next
    case False
    then have "k \<le> n" "\<not> P (Suc n)"
      using Suc.prems by auto
    then show ?thesis
      using Suc by simp
  qed
qed

lemma lastIndexOf_run:
  assumes "run \<noteq> []"
  shows "lastIndexOf (pre @ run) run = int (length pre)"
proof -
  have "occursAt (pre @ run) run (length pre)"
    by (simp add: occursAt_def)
  moreover have "\<forall>j. length pre < j \<and> j \<le> length (pre @ run) \<longrightarrow> \<not> occursAt (pre @ run) run j"
  proof (intro allI impI)
    fix j assume "length pre < j \<and> j \<le> length (pre @ run)"
    then have "length (take (length run) (drop j (pre @ run))) < length run"
      using assms by (auto simp: min_def)
    then show "\<not> occursAt (pre @ run) run j"
      unfolding occursAt_def by (metis less_irrefl)
  qed
  ultimately have "find (occursAt (pre @ run) run) (rev [0..<Suc (length (pre @ run))])
      = Some (length pre)"
    by (intro find_downwards) simp_all
  then show ?thesis
    by (simp add: lastIndexOf_def)
qed

lemma handleSpaceKey_last_word:
  assumes "autoConvertOnSpace config"
    and "run \<noteq> []" and "list_all isWordChar run"
    and "pre = [] \<or> \<not> isWordChar (last pre)"
  shows "handleSpaceKey host config (pre @ run @ post) (int (length pre + length run)) =
    \<lparr>convertedText = pre @ toStringValue host (convertWord host config run) @ [0x20] @ post,
     newCursorPosition =
       (case lengthOf (convertWord host config run) of
          Some n \<Rightarrow> Number (int (length pre) + n + 1)
        | None \<Rightarrow> NaN)\<rparr>"
proof -
  let ?text = "pre @ run @ post"
  have clamp: "clampIndex ?text (int (length pre + length run)) = length pre + length run"
    by (simp add: clampIndex_def)
  have before: "substring ?text 0 (length pre + length run) = pre @ run"
    by (simp add: substring_def min_def max_def)
  have after: "substring ?text (length pre + length run) (length ?text) = post"
    by (simp add: substring_def min_def max_def)
  have word: "lastWordMatch (pre @ run) = Some run"
    using assms(2-4) by (rule lastWordMatch_run)
  have start: "lastIndexOf (pre @ run) run = int (length pre)"
    using assms(2) by (rule lastIndexOf_run)
  have bw: "substring (pre @ run) 0 (clampIndex (pre @ run) (int (length pre))) = pre"
    by (simp add: clampIndex_def substring_def min_def max_def)
  show ?thesis
    unfolding handleSpaceKey_def clamp before after
    using assms(1) by (simp add: word start bw Let_def cong: option.case_cong)
qed

text \<open>
  Where \<open>convertWord\<close> returns a string, this is the reconstruction of claim C6: the
  text before the run, the converted run, one space, the text after the cursor, and the
  cursor after the space. The example of the claim, \<open>mero\<close> with the cursor at 4:
\<close>

lemma mero_word:
  "convertWord host defaultConfig (ascii ''mero'') = Inr [0x92E, 0x947, 0x930, 0x94B]"
  by (simp only: table_eval nat_eval converter_eval cong: eval_cong)

lemma handleSpaceKey_mero:
  "handleSpaceKey host defaultConfig (ascii ''mero'') 4 =
     \<lparr>convertedText = [0x92E, 0x947, 0x930, 0x94B, 0x20], newCursorPosition = Number 5\<rparr>"
proof -
  have a: "autoConvertOnSpace defaultConfig"
    by (simp add: defaultConfig_def)
  have b: "ascii ''mero'' \<noteq> []" "list_all isWordChar (ascii ''mero'')"
    by (simp_all add: ascii_def isWordChar_def isAsciiLetter_def)
  have c: "([]::jsstring) = [] \<or> \<not> isWordChar (last [])"
    by simp
  have d: "length (ascii ''mero'') = 4"
    by (simp add: ascii_def)
  show ?thesis
    using handleSpaceKey_last_word [OF a b c, of host "[]"]
    by (simp add: d mero_word toStringValue_def lengthOf_def)
qed

lemma constructor_word:
  "convertWord host defaultConfig (ascii ''constructor'') =
     Inl (FunctionObject (ascii ''Object'') 1)"
  by (simp only: table_eval nat_eval converter_eval cong: eval_cong)

text \<open>
  Claim C6 says that, with the flag on and a maximal run of word characters right
  before the cursor, the new cursor position is the length of the text before the run
  plus the length of the converted run plus one. Type \<open>constructor\<close> and press space,
  cursor at 11: the exception lookup finds the inherited \<open>Object\<close> function, and
  \<open>convertWord\<close> returns it. The new text is the source text of that function and a
  space; the new cursor position is 2, one more than the function's \<open>length\<close>
  property, whatever the host prints. With V8 the source text has 35 code units.
\<close>

theorem handleSpaceKey_constructor:
  "convertWord host defaultConfig (ascii ''constructor'') =
     Inl (FunctionObject (ascii ''Object'') 1) \<and>
   handleSpaceKey host defaultConfig (ascii ''constructor'') 11 =
     \<lparr>convertedText = functionSource host (ascii ''Object'') @ [0x20],
      newCursorPosition = Number 2\<rparr> \<and>
   functionSource sampleHost (ascii ''Object'') = ascii ''function Object() { [native code] }'' \<and>
   length (functionSource sampleHost (ascii ''Object'')) = 35"
proof -
  have a: "autoConvertOnSpace defaultConfig"
    by (simp add: defaultConfig_def)
  have b: "ascii ''constructor'' \<noteq> []" "list_all isWordChar (ascii ''constructor'')"
    by (simp_all add: ascii_def isWordChar_def isAsciiLetter_def)
  have c: "([]::jsstring) = [] \<or> \<not> isWordChar (last [])"
    by simp
  have d: "length (ascii ''constructor'') = 11"
    by (simp add: ascii_def)
  have "handleSpaceKey host defaultConfig (ascii ''constructor'') 11 =
     \<lparr>convertedText = functionSource host (ascii ''Object'') @ [0x20],
      newCursorPosition = Number 2\<rparr>"
    using handleSpaceKey_last_word [OF a b c, of host "[]"]
    by (simp add: d constructor_word toStringValue_def lengthOf_def)
  moreover have "functionSource sampleHost (ascii ''Object'') =
      ascii ''function Object() { [native code] }''"
    "length (functionSource sampleHost (ascii ''Object'')) = 35"
    by (simp_all add: sampleHost_def ascii_def)
  ultimately show ?thesis
    using constructor_word by simp
qed

section \<open>Line feeds in converted text\<close>

lemmas text_eval =
  convertText_def splitText_def splitText_loop.simps isSeparator_def punctuationSet_def
  containsLetter_def list_ex_Nil_iff list_ex_Cons_iff isAsciiLetter_def toStringValue_def
  sum.case member.case concat.simps

text \<open>
  Claim C2 says that \<open>convertText\<close> never drops, duplicates or reorders non-alphabetic
  content, so that the layout survives. A line feed is no separator for \<open>splitText\<close>:
  it stays in the token of the word next to it, and \<open>convertWord\<close> trims it away. The
  two-line text \<open>ho.\<close>, line feed, \<open>ho\<close> comes back on one line. The same line feed is
  kept where its token has no letter (at the end of the text) and where it stands inside
  a token (between two words without a full stop). A token that names an inherited member
  comes back as the source text of a function, which brings punctuation the text never
  had.
\<close>

theorem convertText_drops_line_feed:
  "convertText host defaultConfig (ascii ''ho.'' @ [0x0A] @ ascii ''ho'') =
     [0x939, 0x94B, 0x2E, 0x939, 0x94B] \<and>
   convertText host defaultConfig (ascii ''ho.'' @ [0x0A]) = [0x939, 0x94B, 0x2E, 0x0A] \<and>
   convertText host defaultConfig (ascii ''ho'' @ [0x0A] @ ascii ''ho'') =
     [0x939, 0x94B, 0x0A, 0x939, 0x94B] \<and>
   convertText host defaultConfig (ascii ''constructor'') = functionSource host (ascii ''Object'')"
  by (simp only: text_eval table_eval nat_eval converter_eval cong: eval_cong)


end
